theory Spec2Isabelle
  imports Main
begin

section \<open>The cookie broker of \<^verbatim>\<open>cookies.ts\<close>\<close>

text \<open>
  The class \<^verbatim>\<open>Cookies\<close> keeps two private static fields (the subscriber registry and the
  interception flag) and talks to three collaborators that are not part of the repository:
  the browser (\<^verbatim>\<open>document.cookie\<close>, \<^verbatim>\<open>navigator.cookieEnabled\<close>), the js-cookie library
  (\<^verbatim>\<open>JSCookies.get/set/remove\<close>) and \<^verbatim>\<open>JSON.parse/stringify\<close>. The collaborators are
  parameters of the model; the class itself is translated function by function.
\<close>

subsection \<open>JavaScript values, exceptions, strings and arrays\<close>

text \<open>
  The broker inspects a value in two ways only: \<^verbatim>\<open>value === undefined\<close> and
  \<^verbatim>\<open>typeof value === "string"\<close>. Every other value (numbers, booleans, arrays, objects) is
  kept abstract in the type parameter \<open>'j\<close>; \<^verbatim>\<open>null\<close> has a constructor of its own because
  the interceptor passes it as a default.
\<close>

datatype 'j jsvalue = Undefined | Null | Str string | Structured 'j

datatype exn = SyntaxError | TypeError

text \<open>A subscriber is a function object; only its identity matters to the registry.\<close>

type_synonym cb = nat

text \<open>\<^verbatim>\<open>indexOf\<close> of strings (for a one-character pattern) and of arrays: the first index, or -1.\<close>

fun indexOf_from :: "int \<Rightarrow> 'a list \<Rightarrow> 'a \<Rightarrow> int" where
  "indexOf_from k [] x = - 1"
| "indexOf_from k (y # ys) x = (if y = x then k else indexOf_from (k + 1) ys x)"

definition indexOf :: "'a list \<Rightarrow> 'a \<Rightarrow> int" where
  "indexOf xs x = indexOf_from 0 xs x"

text \<open>\<^verbatim>\<open>value.includes("=")\<close> for a one-character pattern.\<close>

definition includes_char :: "string \<Rightarrow> char \<Rightarrow> bool" where
  "includes_char s c = (indexOf s c \<noteq> - 1)"

text \<open>
  \<^verbatim>\<open>String.prototype.substring(start, end)\<close>: both indices are clamped to the string and
  swapped when out of order.
\<close>

definition substring :: "string \<Rightarrow> int \<Rightarrow> int \<Rightarrow> string" where
  "substring s a b =
     (let len = int (length s);
          a' = min (max a 0) len;
          b' = min (max b 0) len;
          lo = min a' b';
          hi = max a' b'
      in take (nat (hi - lo)) (drop (nat lo) s))"

definition startsWith :: "string \<Rightarrow> string \<Rightarrow> bool" where
  "startsWith s p = (take (length p) s = p)"

text \<open>\<^verbatim>\<open>res.slice(5)\<close>: the string from index 5 on.\<close>

definition slice_from :: "string \<Rightarrow> nat \<Rightarrow> string" where
  "slice_from s n = drop n s"

text \<open>
  \<^verbatim>\<open>Array.prototype.splice(start)\<close> called with one argument, as the unsubscribe closure
  does: a negative start counts from the end, and every element from the start index to the
  end of the array is removed. The result is the array as it is left.
\<close>

definition splice_from :: "'a list \<Rightarrow> int \<Rightarrow> 'a list" where
  "splice_from xs start =
     (let len = int (length xs);
          actualStart = (if start < 0 then max (len + start) 0 else min start len)
      in take (nat actualStart) xs)"

subsection \<open>The collaborators\<close>

text \<open>
  \<open>'jar\<close> is the browser's cookie store, \<open>'o\<close> the options object handed to js-cookie.
  \<^item> \<open>JSCookies_get\<close>: what \<^verbatim>\<open>JSCookies.get(name)\<close> returns on a store (\<open>None\<close> for
    \<^verbatim>\<open>undefined\<close>); it reads through the cookie getter, which is never intercepted.
  \<^item> \<open>JSCookies_set_text\<close>, \<open>JSCookies_remove_text\<close>: the string that \<^verbatim>\<open>JSCookies.set\<close> and
    \<^verbatim>\<open>JSCookies.remove\<close> assign to \<^verbatim>\<open>document.cookie\<close>.
  \<^item> \<open>setCookie\<close>: the original setter of \<^verbatim>\<open>document.cookie\<close>.
  \<^item> \<open>JSON_parse\<close> (\<open>None\<close> for a thrown \<^verbatim>\<open>SyntaxError\<close>) and \<open>JSON_stringify\<close>.
\<close>

record ('jar, 'o, 'j) platform =
  JSCookies_get :: "'jar \<Rightarrow> string \<Rightarrow> string option"
  JSCookies_set_text :: "string \<Rightarrow> string \<Rightarrow> 'o \<Rightarrow> string"
  JSCookies_remove_text :: "string \<Rightarrow> 'o \<Rightarrow> string"
  setCookie :: "string \<Rightarrow> 'jar \<Rightarrow> 'jar"
  JSON_parse :: "string \<Rightarrow> 'j jsvalue option"
  JSON_stringify :: "'j jsvalue \<Rightarrow> string"

text \<open>
  What \<^verbatim>\<open>#startIntercepting\<close> reads from the browser when it runs:
  \<^verbatim>\<open>navigator.cookieEnabled\<close> and the \<^verbatim>\<open>configurable\<close> attribute of the descriptor of
  \<^verbatim>\<open>Document.prototype.cookie\<close>.
\<close>

record env =
  cookieEnabled :: bool
  configurable :: bool

subsection \<open>The state\<close>

text \<open>
  \<^item> \<open>subscribers\<close>: the own properties of \<^verbatim>\<open>Cookies.#subscribers\<close>.
  \<^item> \<open>isIntercepting\<close>: \<^verbatim>\<open>Cookies.#isIntercepting\<close>.
  \<^item> \<open>installs\<close>: how many times \<^verbatim>\<open>Object.defineProperty(document, "cookie", ...)\<close> has run;
    an assignment to \<^verbatim>\<open>document.cookie\<close> reaches the interceptor once it has run.
  \<^item> \<open>jar\<close>: the browser's cookie store.
  \<^item> \<open>calls\<close>: the history of subscriber invocations \<open>(f, newValue, oldValue)\<close>, oldest first.
    What a subscriber does when called is outside the broker.
  Console output is not modelled.
\<close>

record ('jar, 'j) broker =
  subscribers :: "string \<rightharpoonup> cb list"
  isIntercepting :: bool
  installs :: nat
  jar :: 'jar
  calls :: "(cb \<times> 'j jsvalue \<times> 'j jsvalue) list"

definition init :: "'jar \<Rightarrow> ('jar, 'j) broker" where
  "init j = \<lparr>subscribers = Map.empty, isIntercepting = False, installs = 0, jar = j, calls = []\<rparr>"

text \<open>
  \<^verbatim>\<open>#subscribers\<close> is an object literal, so \<^verbatim>\<open>name in #subscribers\<close> and
  \<^verbatim>\<open>#subscribers[name]\<close> also find the properties inherited from \<^verbatim>\<open>Object.prototype\<close>.
  None of them is an array.
\<close>

definition Object_prototype_keys :: "string list" where
  "Object_prototype_keys =
     [''constructor'', ''__defineGetter__'', ''__defineSetter__'', ''hasOwnProperty'',
      ''__lookupGetter__'', ''__lookupSetter__'', ''isPrototypeOf'', ''propertyIsEnumerable'',
      ''toString'', ''valueOf'', ''__proto__'', ''toLocaleString'']"

definition has_property :: "(string \<rightharpoonup> cb list) \<Rightarrow> string \<Rightarrow> bool" where
  "has_property subs name = (subs name \<noteq> None \<or> name \<in> set Object_prototype_keys)"

subsection \<open>\<^verbatim>\<open>Cookies.get\<close>\<close>

definition Cookies_get ::
  "('jar, 'o, 'j) platform \<Rightarrow> 'jar \<Rightarrow> string \<Rightarrow> 'j jsvalue \<Rightarrow> exn + 'j jsvalue" where
  "Cookies_get P j name defaultValue =
     (case JSCookies_get P j name of
        None \<Rightarrow> Inr defaultValue
      | Some res \<Rightarrow>
          if startsWith res ''json:'' then
            (case JSON_parse P (slice_from res 5) of
               None \<Rightarrow> Inl SyntaxError
             | Some v \<Rightarrow> Inr v)
          else Inr (Str res))"

subsection \<open>The interceptor\<close>

text \<open>
  \<^verbatim>\<open>#startIntercepting\<close>: three early returns, then the accessor is replaced and the flag
  set.
\<close>

definition startIntercepting :: "env \<Rightarrow> ('jar, 'j) broker \<Rightarrow> ('jar, 'j) broker" where
  "startIntercepting e s =
     (if isIntercepting s then s
      else if \<not> cookieEnabled e then s
      else if \<not> configurable e then s
      else s\<lparr>installs := Suc (installs s), isIntercepting := True\<rparr>)"

text \<open>
  The installed write accessor \<^verbatim>\<open>setter(value)\<close>. An exception leaves the state as it is
  at the point where it is thrown, so the result is the exception (if any) and the state.
  The last line is \<^verbatim>\<open>Cookies.#subscribers[name]?.forEach(...)\<close>: an array is iterated, an
  absent entry is skipped, and an inherited property (not an array) has no \<^verbatim>\<open>forEach\<close>.
\<close>

definition setter ::
  "('jar, 'o, 'j) platform \<Rightarrow> string \<Rightarrow> ('jar, 'j) broker \<Rightarrow> exn option \<times> ('jar, 'j) broker" where
  "setter P v s =
     (if \<not> includes_char v CHR ''='' then (None, s\<lparr>jar := setCookie P v (jar s)\<rparr>)
      else
        let name = substring v 0 (indexOf v CHR ''='') in
        (case Cookies_get P (jar s) name Null of
           Inl e \<Rightarrow> (Some e, s)
         | Inr oldValue \<Rightarrow>
             (let s1 = s\<lparr>jar := setCookie P v (jar s)\<rparr> in
              (case Cookies_get P (jar s1) name Null of
                 Inl e \<Rightarrow> (Some e, s1)
               | Inr newValue \<Rightarrow>
                   (case subscribers s1 name of
                      Some fs \<Rightarrow>
                        (None, s1\<lparr>calls := calls s1 @ map (\<lambda>f. (f, newValue, oldValue)) fs\<rparr>)
                    | None \<Rightarrow>
                        (if name \<in> set Object_prototype_keys then (Some TypeError, s1)
                         else (None, s1)))))))"

text \<open>
  The assignment \<^verbatim>\<open>document.cookie = v\<close>, by any script: the interceptor when it has been
  installed, the original setter otherwise.
\<close>

definition document_cookie_assign ::
  "('jar, 'o, 'j) platform \<Rightarrow> string \<Rightarrow> ('jar, 'j) broker \<Rightarrow> exn option \<times> ('jar, 'j) broker" where
  "document_cookie_assign P v s =
     (if 0 < installs s then setter P v s else (None, s\<lparr>jar := setCookie P v (jar s)\<rparr>))"

subsection \<open>\<^verbatim>\<open>Cookies.set\<close>\<close>

text \<open>
  Modelled from the spec: js-cookie (\<^verbatim>\<open>JSCookies.set\<close>, \<^verbatim>\<open>JSCookies.remove\<close>) is imported by
  \<^verbatim>\<open>cookies.ts\<close> and is not among the source files. The spec says of the three branches of
  \<^verbatim>\<open>Cookies.set\<close> that all of them "go through the platform's standard write path, which is the
  same path the interceptor wraps": js-cookie writes by assigning a text to
  \<^verbatim>\<open>document.cookie\<close>. Which text it assigns is left to the platform.
\<close>

definition JSCookies_set ::
  "('jar, 'o, 'j) platform \<Rightarrow> string \<Rightarrow> string \<Rightarrow> 'o \<Rightarrow> ('jar, 'j) broker
     \<Rightarrow> exn option \<times> ('jar, 'j) broker" where
  "JSCookies_set P name v opts s = document_cookie_assign P (JSCookies_set_text P name v opts) s"

definition JSCookies_remove ::
  "('jar, 'o, 'j) platform \<Rightarrow> string \<Rightarrow> 'o \<Rightarrow> ('jar, 'j) broker
     \<Rightarrow> exn option \<times> ('jar, 'j) broker" where
  "JSCookies_remove P name opts s = document_cookie_assign P (JSCookies_remove_text P name opts) s"

definition Cookies_set ::
  "('jar, 'o, 'j) platform \<Rightarrow> string \<Rightarrow> 'j jsvalue \<Rightarrow> 'o \<Rightarrow> ('jar, 'j) broker
     \<Rightarrow> exn option \<times> ('jar, 'j) broker" where
  "Cookies_set P name v opts s =
     (case v of
        Undefined \<Rightarrow> JSCookies_remove P name opts s
      | Str str \<Rightarrow> JSCookies_set P name str opts s
      | _ \<Rightarrow> JSCookies_set P name (''json:'' @ JSON_stringify P v) opts s)"

subsection \<open>\<^verbatim>\<open>Cookies.subscribe\<close> and the closure it returns\<close>

text \<open>
  Lines 143 to 146: the entry is created unless \<^verbatim>\<open>name in #subscribers\<close>, then
  \<^verbatim>\<open>#subscribers[name].push(f)\<close>. An inherited property has no \<^verbatim>\<open>push\<close>.
\<close>

definition register :: "string \<Rightarrow> cb \<Rightarrow> ('jar, 'j) broker \<Rightarrow> exn option \<times> ('jar, 'j) broker" where
  "register name f s =
     (let subs1 = (if \<not> has_property (subscribers s) name then (subscribers s)(name \<mapsto> [])
                   else subscribers s)
      in case subs1 name of
           Some fs \<Rightarrow> (None, s\<lparr>subscribers := subs1(name \<mapsto> fs @ [f])\<rparr>)
         | None \<Rightarrow> (Some TypeError, s\<lparr>subscribers := subs1\<rparr>))"

definition subscribe ::
  "env \<Rightarrow> string \<Rightarrow> cb \<Rightarrow> ('jar, 'j) broker \<Rightarrow> exn option \<times> ('jar, 'j) broker" where
  "subscribe e name f s = register name f (startIntercepting e s)"

text \<open>
  The returned closure:
  \<^verbatim>\<open>#subscribers[name].splice(#subscribers[name].indexOf(f))\<close>.
\<close>

definition unsubscribe ::
  "string \<Rightarrow> cb \<Rightarrow> ('jar, 'j) broker \<Rightarrow> exn option \<times> ('jar, 'j) broker" where
  "unsubscribe name f s =
     (case subscribers s name of
        Some fs \<Rightarrow> (None, s\<lparr>subscribers := (subscribers s)(name \<mapsto> splice_from fs (indexOf fs f))\<rparr>)
      | None \<Rightarrow> (Some TypeError, s))"

subsection \<open>Runs\<close>

text \<open>
  What a page can do to the broker, in any order: subscribe (under the browser conditions
  of that moment), call an unsubscribe closure, call \<^verbatim>\<open>Cookies.set\<close>, or assign to
  \<^verbatim>\<open>document.cookie\<close> directly. A thrown exception ends the operation, not the page.
\<close>

datatype ('o, 'j) action =
  Subscribe env string cb
| Unsubscribe string cb
| Set string "'j jsvalue" 'o
| Assign string

fun step :: "('jar, 'o, 'j) platform \<Rightarrow> ('o, 'j) action \<Rightarrow> ('jar, 'j) broker \<Rightarrow> ('jar, 'j) broker" where
  "step P (Subscribe e name f) s = snd (subscribe e name f s)"
| "step P (Unsubscribe name f) s = snd (unsubscribe name f s)"
| "step P (Set name v opts) s = snd (Cookies_set P name v opts s)"
| "step P (Assign v) s = snd (document_cookie_assign P v s)"

fun run :: "('jar, 'o, 'j) platform \<Rightarrow> ('jar, 'j) broker \<Rightarrow> ('o, 'j) action list \<Rightarrow> ('jar, 'j) broker" where
  "run P s [] = s"
| "run P s (a # as) = run P (step P a s) as"

subsection \<open>Conditions named in the statements\<close>

text \<open>\<^verbatim>\<open>typeof value === "string"\<close>.\<close>

definition is_string :: "'j jsvalue \<Rightarrow> bool" where
  "is_string v = (case v of Str _ \<Rightarrow> True | _ \<Rightarrow> False)"

text \<open>The two conditions under which \<^verbatim>\<open>#startIntercepting\<close> gives up.\<close>

definition interception_unavailable :: "env \<Rightarrow> bool" where
  "interception_unavailable e = (\<not> cookieEnabled e \<or> \<not> configurable e)"

definition subscribes_unavailable :: "('o, 'j) action \<Rightarrow> bool" where
  "subscribes_unavailable a =
     (case a of Subscribe e _ _ \<Rightarrow> interception_unavailable e | _ \<Rightarrow> True)"

text \<open>
  The name the interceptor works with, as the specification words it: the text before the
  first \<^verbatim>\<open>=\<close>. The code computes it with \<^verbatim>\<open>substring\<close> and \<^verbatim>\<open>indexOf\<close>.
\<close>

definition text_before_equals :: "string \<Rightarrow> string" where
  "text_before_equals v = takeWhile (\<lambda>c. c \<noteq> CHR ''='') v"

text \<open>The subscribers registered for a name, in the order of the array.\<close>

definition registered :: "('jar, 'j) broker \<Rightarrow> string \<Rightarrow> cb list" where
  "registered s name = (case subscribers s name of Some fs \<Rightarrow> fs | None \<Rightarrow> [])"

subsection \<open>A small platform for the closed examples\<close>

text \<open>
  The examples below run the broker on a platform whose cookie store is an association
  list, whose cookie text is \<^verbatim>\<open>name=value\<close> (followed by \<^verbatim>\<open>;max-age=0\<close> for a removal),
  and whose JSON is the fragment \<^verbatim>\<open>null\<close>, \<^verbatim>\<open>true\<close>, \<^verbatim>\<open>false\<close>; every other text is
  rejected, as \<^verbatim>\<open>JSON.parse\<close> rejects \<^verbatim>\<open>{\<close>. Its setter ignores a text without \<^verbatim>\<open>=\<close>.
\<close>

type_synonym demo_jar = "(string \<times> string) list"

definition demo_setCookie :: "string \<Rightarrow> demo_jar \<Rightarrow> demo_jar" where
  "demo_setCookie v j =
     (if CHR ''='' \<notin> set v then j
      else
        let name = takeWhile (\<lambda>c. c \<noteq> CHR ''='') v;
            rest = drop (Suc (length name)) v;
            val = takeWhile (\<lambda>c. c \<noteq> CHR '';'') rest;
            attrs = drop (length val) rest;
            others = filter (\<lambda>p. fst p \<noteq> name) j
        in if attrs = '';max-age=0'' then others else (name, val) # others)"

definition demo_parse :: "string \<Rightarrow> bool jsvalue option" where
  "demo_parse t =
     (if t = ''null'' then Some Null
      else if t = ''true'' then Some (Structured True)
      else if t = ''false'' then Some (Structured False)
      else None)"

definition demo_stringify :: "bool jsvalue \<Rightarrow> string" where
  "demo_stringify v =
     (case v of
        Null \<Rightarrow> ''null''
      | Structured b \<Rightarrow> (if b then ''true'' else ''false'')
      | _ \<Rightarrow> ''undefined'')"

definition demo :: "(demo_jar, unit, bool) platform" where
  "demo =
     \<lparr>JSCookies_get = map_of,
      JSCookies_set_text = (\<lambda>name v _. name @ ''='' @ v),
      JSCookies_remove_text = (\<lambda>name _. name @ ''=;max-age=0''),
      setCookie = demo_setCookie,
      JSON_parse = demo_parse,
      JSON_stringify = demo_stringify\<rparr>"

definition enabled :: env where
  "enabled = \<lparr>cookieEnabled = True, configurable = True\<rparr>"

definition disabled :: env where
  "disabled = \<lparr>cookieEnabled = False, configurable = True\<rparr>"

text \<open>
  A page that started with the cookies \<open>j\<close> and then subscribed callback 7 to \<open>name\<close> while
  interception was available: the interceptor is installed.
\<close>

definition watching :: "demo_jar \<Rightarrow> string \<Rightarrow> (demo_jar, bool) broker" where
  "watching j name = run demo (init j) [Subscribe enabled name 7]"

text \<open>
  A page on which cookies are disabled: callback 1 subscribes to \<^verbatim>\<open>a\<close> twice, with a
  \<^verbatim>\<open>Cookies.set\<close> between and a direct write after.
\<close>

definition unwatched_page :: "(unit, bool) action list" where
  "unwatched_page =
     [Subscribe disabled ''a'' 1, Set ''a'' (Str ''v'') (), Subscribe disabled ''a'' 1,
      Assign ''a=2'']"

section \<open>Strings and arrays\<close>

lemma indexOf_from_notin: "x \<notin> set xs \<Longrightarrow> indexOf_from k xs x = - 1"
  by (induction xs arbitrary: k) auto

lemma indexOf_from_in:
  "x \<in> set xs \<Longrightarrow> indexOf_from k xs x = k + int (length (takeWhile (\<lambda>y. y \<noteq> x) xs))"
  by (induction xs arbitrary: k) auto

lemma indexOf_in: "x \<in> set xs \<Longrightarrow> indexOf xs x = int (length (takeWhile (\<lambda>y. y \<noteq> x) xs))"
  by (simp add: indexOf_def indexOf_from_in)

lemma indexOf_notin: "x \<notin> set xs \<Longrightarrow> indexOf xs x = - 1"
  by (simp add: indexOf_def indexOf_from_notin)

lemma includes_char_iff: "includes_char s c = (c \<in> set s)"
  by (cases "c \<in> set s") (simp_all add: includes_char_def indexOf_in indexOf_notin)

lemma take_length_takeWhile: "take (length (takeWhile Q xs)) xs = takeWhile Q xs"
  by (induction xs) auto

text \<open>The name the interceptor computes is the text before the first \<^verbatim>\<open>=\<close>.\<close>

lemma substring_before:
  assumes "c \<in> set s"
  shows "substring s 0 (indexOf s c) = takeWhile (\<lambda>y. y \<noteq> c) s"
proof -
  from assms have i: "indexOf s c = int (length (takeWhile (\<lambda>y. y \<noteq> c) s))"
    by (rule indexOf_in)
  have le: "length (takeWhile (\<lambda>y. y \<noteq> c) s) \<le> length s"
    by (rule length_takeWhile_le)
  show ?thesis
    using le by (simp add: substring_def i Let_def min_def max_def take_length_takeWhile)
qed

text \<open>
  What the closure's \<^verbatim>\<open>splice(indexOf(f))\<close> leaves of the array: the elements before the first
  occurrence of \<open>f\<close>; and when \<open>f\<close> does not occur, the index is -1 and the last element goes.
\<close>

lemma splice_indexOf:
  "splice_from fs (indexOf fs f) =
     (if f \<in> set fs then takeWhile (\<lambda>g. g \<noteq> f) fs else butlast fs)"
proof (cases "f \<in> set fs")
  case True
  have le: "length (takeWhile (\<lambda>g. g \<noteq> f) fs) \<le> length fs"
    by (rule length_takeWhile_le)
  show ?thesis using True le
    by (simp add: splice_from_def indexOf_in Let_def min_def take_length_takeWhile)
next
  case False
  then show ?thesis
    by (cases fs rule: rev_cases)
      (simp_all add: splice_from_def indexOf_notin Let_def butlast_conv_take)
qed

section \<open>Reading a cookie\<close>

lemma get_absent: "JSCookies_get P j name = None \<Longrightarrow> Cookies_get P j name d = Inr d"
  by (simp add: Cookies_get_def)

lemma get_plain:
  "JSCookies_get P j name = Some str \<Longrightarrow> \<not> startsWith str ''json:''
   \<Longrightarrow> Cookies_get P j name d = Inr (Str str)"
  by (simp add: Cookies_get_def)

lemma get_json:
  "JSCookies_get P j name = Some (''json:'' @ t) \<Longrightarrow> JSON_parse P t = Some v
   \<Longrightarrow> Cookies_get P j name d = Inr v"
  by (simp add: Cookies_get_def startsWith_def slice_from_def)

text \<open>
  C8. A stored value that starts with \<^verbatim>\<open>json:\<close> and whose remainder \<^verbatim>\<open>JSON.parse\<close> rejects makes
  \<^verbatim>\<open>Cookies.get\<close> throw the parse error, whatever the default is: the error is not caught
  and the default is not returned.
\<close>

theorem get_corrupt_json_throws:
  assumes "JSCookies_get P j name = Some res"
    and "startsWith res ''json:''"
    and "JSON_parse P (slice_from res 5) = None"
  shows "Cookies_get P j name d = Inl SyntaxError"
  using assms by (simp add: Cookies_get_def)

theorem get_corrupt_json_throws_witness:
  "JSCookies_get demo [(''x'', ''json:{'')] ''x'' = Some ''json:{''
   \<and> startsWith ''json:{'' ''json:''
   \<and> JSON_parse demo (slice_from ''json:{'' 5) = None
   \<and> Cookies_get demo [(''x'', ''json:{'')] ''x'' (Str ''d'') = Inl SyntaxError"
proof -
  have stored: "JSCookies_get demo [(''x'', ''json:{'')] ''x'' = Some ''json:{''"
    by (simp add: demo_def)
  have prefixed: "startsWith ''json:{'' ''json:''"
    by (simp add: startsWith_def)
  have rejected: "JSON_parse demo (slice_from ''json:{'' 5) = None"
    by (simp add: demo_def demo_parse_def slice_from_def)
  show ?thesis
    using stored prefixed rejected
      get_corrupt_json_throws [OF stored prefixed rejected, of "Str ''d''"]
    by simp
qed

section \<open>The installed write accessor\<close>

lemma setter_no_equals:
  "CHR ''='' \<notin> set v \<Longrightarrow> setter P v s = (None, s\<lparr>jar := setCookie P v (jar s)\<rparr>)"
  by (simp add: setter_def includes_char_iff)

lemma setter_name:
  "CHR ''='' \<in> set v \<Longrightarrow> substring v 0 (indexOf v CHR ''='') = text_before_equals v"
  by (simp add: substring_before text_before_equals_def)

text \<open>The old value is read first: when that read throws, nothing has been written.\<close>

lemma setter_old_fails:
  assumes "CHR ''='' \<in> set v"
    and "Cookies_get P (jar s) (text_before_equals v) Null = Inl e"
  shows "setter P v s = (Some e, s)"
  using assms by (simp add: setter_def includes_char_iff setter_name)

text \<open>When the read of the new value throws, the write has happened and nobody is called.\<close>

lemma setter_new_fails:
  assumes "CHR ''='' \<in> set v"
    and "Cookies_get P (jar s) (text_before_equals v) Null = Inr old"
    and "Cookies_get P (setCookie P v (jar s)) (text_before_equals v) Null = Inl e"
  shows "setter P v s = (Some e, s\<lparr>jar := setCookie P v (jar s)\<rparr>)"
  using assms by (simp add: setter_def includes_char_iff setter_name)

lemma setter_notifies:
  assumes "CHR ''='' \<in> set v"
    and "Cookies_get P (jar s) (text_before_equals v) Null = Inr old"
    and "Cookies_get P (setCookie P v (jar s)) (text_before_equals v) Null = Inr new"
  shows "snd (setter P v s) =
           s\<lparr>jar := setCookie P v (jar s),
             calls := calls s @ map (\<lambda>f. (f, new, old)) (registered s (text_before_equals v))\<rparr>"
  using assms
  by (simp add: setter_def includes_char_iff setter_name registered_def Let_def
      split: option.split)

lemma setter_frame:
  "subscribers (snd (setter P v s)) = subscribers s
   \<and> isIntercepting (snd (setter P v s)) = isIntercepting s
   \<and> installs (snd (setter P v s)) = installs s"
  by (simp add: setter_def Let_def split: sum.split option.split)

lemma setter_jar:
  assumes "CHR ''='' \<notin> set v \<or> (\<exists>old. Cookies_get P (jar s) (text_before_equals v) Null = Inr old)"
  shows "jar (snd (setter P v s)) = setCookie P v (jar s)"
proof (cases "CHR ''='' \<in> set v")
  case False
  then show ?thesis by (simp add: setter_no_equals)
next
  case True
  with assms obtain old where "Cookies_get P (jar s) (text_before_equals v) Null = Inr old"
    by blast
  with True show ?thesis
    by (simp add: setter_def includes_char_iff setter_name Let_def split: sum.split option.split)
qed

lemma register_frame:
  "isIntercepting (snd (register name f s)) = isIntercepting s
   \<and> installs (snd (register name f s)) = installs s
   \<and> jar (snd (register name f s)) = jar s
   \<and> calls (snd (register name f s)) = calls s"
  by (simp add: register_def Let_def split: option.split)

text \<open>\<^verbatim>\<open>push\<close> appends: the array is in subscription order.\<close>

lemma register_appends:
  assumes "fst (register name f s) = None"
  shows "registered (snd (register name f s)) name = registered s name @ [f]"
  using assms
  by (auto simp: register_def registered_def has_property_def Let_def
      split: option.splits if_splits)

text \<open>
  C2, amended. A written string without \<^verbatim>\<open>=\<close> goes to the original setter and
  nothing else happens. For a string with \<^verbatim>\<open>=\<close>, the name is the text before the first
  \<^verbatim>\<open>=\<close>; when \<^verbatim>\<open>Cookies.get(name, null)\<close> returns \<open>old\<close> on the store before the write and \<open>new\<close>
  on the store after it, the state left behind is the old one with the original setter
  applied to the unchanged string and one call \<open>(f, new, old)\<close> appended for every subscriber
  registered for the name, in the order of the array, whether or not \<open>old\<close> and \<open>new\<close> differ.
  The array is in subscription order, since a subscription that succeeds appends to it.
\<close>

theorem setter_passes_through_or_notifies:
  "(CHR ''='' \<notin> set v \<longrightarrow> setter P v s = (None, s\<lparr>jar := setCookie P v (jar s)\<rparr>))
   \<and> (CHR ''='' \<in> set v
        \<and> Cookies_get P (jar s) (text_before_equals v) Null = Inr old
        \<and> Cookies_get P (setCookie P v (jar s)) (text_before_equals v) Null = Inr new
      \<longrightarrow> snd (setter P v s) =
            s\<lparr>jar := setCookie P v (jar s),
              calls := calls s @ map (\<lambda>f. (f, new, old)) (registered s (text_before_equals v))\<rparr>)
   \<and> (fst (subscribe e name f s) = None
      \<longrightarrow> registered (snd (subscribe e name f s)) name = registered s name @ [f])"
proof (intro conjI impI)
  assume "CHR ''='' \<notin> set v"
  then show "setter P v s = (None, s\<lparr>jar := setCookie P v (jar s)\<rparr>)"
    by (rule setter_no_equals)
next
  assume "CHR ''='' \<in> set v
        \<and> Cookies_get P (jar s) (text_before_equals v) Null = Inr old
        \<and> Cookies_get P (setCookie P v (jar s)) (text_before_equals v) Null = Inr new"
  then show "snd (setter P v s) =
            s\<lparr>jar := setCookie P v (jar s),
              calls := calls s @ map (\<lambda>f. (f, new, old)) (registered s (text_before_equals v))\<rparr>"
    by (simp add: setter_notifies)
next
  assume "fst (subscribe e name f s) = None"
  then have "registered (snd (subscribe e name f s)) name
               = registered (startIntercepting e s) name @ [f]"
    by (simp add: subscribe_def register_appends)
  then show "registered (snd (subscribe e name f s)) name = registered s name @ [f]"
    by (simp add: registered_def startIntercepting_def)
qed

text \<open>
  The theorem at work: \<^verbatim>\<open>garbage\<close> passes through; \<^verbatim>\<open>x=1\<close> over the stored \<^verbatim>\<open>0\<close> calls
  subscriber 7, and after a second subscription 7 and then 8, with \<open>("1", "0")\<close>.
\<close>

theorem setter_passes_through_or_notifies_witness:
  "CHR ''='' \<notin> set ''garbage''
   \<and> setter demo ''garbage'' (watching [(''x'', ''0'')] ''x'')
       = (None, (watching [(''x'', ''0'')] ''x'')
                  \<lparr>jar := setCookie demo ''garbage'' (jar (watching [(''x'', ''0'')] ''x''))\<rparr>)
   \<and> CHR ''='' \<in> set ''x=1''
   \<and> Cookies_get demo (jar (watching [(''x'', ''0'')] ''x'')) (text_before_equals ''x=1'') Null
       = Inr (Str ''0'')
   \<and> Cookies_get demo (setCookie demo ''x=1'' (jar (watching [(''x'', ''0'')] ''x'')))
         (text_before_equals ''x=1'') Null
       = Inr (Str ''1'')
   \<and> snd (setter demo ''x=1'' (watching [(''x'', ''0'')] ''x''))
       = (watching [(''x'', ''0'')] ''x'')
           \<lparr>jar := setCookie demo ''x=1'' (jar (watching [(''x'', ''0'')] ''x'')),
             calls := calls (watching [(''x'', ''0'')] ''x'')
               @ map (\<lambda>f. (f, Str ''1'', Str ''0''))
                   (registered (watching [(''x'', ''0'')] ''x'') (text_before_equals ''x=1''))\<rparr>
   \<and> calls (snd (setter demo ''x=1'' (snd (subscribe enabled ''x'' 8 (watching [(''x'', ''0'')] ''x'')))))
       = [(7, Str ''1'', Str ''0''), (8, Str ''1'', Str ''0'')]
   \<and> fst (subscribe enabled ''x'' 8 (watching [(''x'', ''0'')] ''x'')) = None
   \<and> registered (snd (subscribe enabled ''x'' 8 (watching [(''x'', ''0'')] ''x''))) ''x''
       = registered (watching [(''x'', ''0'')] ''x'') ''x'' @ [8]"
proof -
  have no_eq: "CHR ''='' \<notin> set ''garbage''" by simp
  have eq: "CHR ''='' \<in> set ''x=1''" by simp
  have old: "Cookies_get demo (jar (watching [(''x'', ''0'')] ''x'')) (text_before_equals ''x=1'') Null
       = Inr (Str ''0'')" by code_simp
  have new: "Cookies_get demo (setCookie demo ''x=1'' (jar (watching [(''x'', ''0'')] ''x'')))
         (text_before_equals ''x=1'') Null = Inr (Str ''1'')" by code_simp
  have sub: "fst (subscribe enabled ''x'' 8 (watching [(''x'', ''0'')] ''x'')) = None"
    by code_simp
  have both: "calls (snd (setter demo ''x=1''
        (snd (subscribe enabled ''x'' 8 (watching [(''x'', ''0'')] ''x'')))))
       = [(7, Str ''1'', Str ''0''), (8, Str ''1'', Str ''0'')]"
    by code_simp
  note pass = setter_passes_through_or_notifies
    [where v = "''garbage''" and P = demo and s = "watching [(''x'', ''0'')] ''x''"]
  note notify = setter_passes_through_or_notifies
    [where v = "''x=1''" and P = demo and s = "watching [(''x'', ''0'')] ''x''"
       and old = "Str ''0''" and new = "Str ''1''" and e = enabled and name = "''x''" and f = 8]
  show ?thesis
    using no_eq eq old new sub both pass notify by blast
qed

text \<open>
  C2 as stated fails. Subscriber 7 is registered for \<^verbatim>\<open>x\<close> and the interceptor is installed.
  With \<^verbatim>\<open>json:{\<close> stored under \<^verbatim>\<open>x\<close>, writing \<^verbatim>\<open>x=1\<close> throws while the old value is read: the
  original setter would store \<^verbatim>\<open>1\<close>, but the store is unchanged and nobody is called. With
  nothing stored, writing \<^verbatim>\<open>x=json:{\<close> is performed, then throws while the new value is read,
  and nobody is called.
\<close>

theorem setter_blocked_by_corrupt_cookie:
  "installs (watching [(''x'', ''json:{'')] ''x'') = 1
   \<and> registered (watching [(''x'', ''json:{'')] ''x'') ''x'' = [7]
   \<and> setCookie demo ''x=1'' [(''x'', ''json:{'')] = [(''x'', ''1'')]
   \<and> fst (setter demo ''x=1'' (watching [(''x'', ''json:{'')] ''x'')) = Some SyntaxError
   \<and> jar (snd (setter demo ''x=1'' (watching [(''x'', ''json:{'')] ''x''))) = [(''x'', ''json:{'')]
   \<and> calls (snd (setter demo ''x=1'' (watching [(''x'', ''json:{'')] ''x''))) = []
   \<and> registered (watching [] ''x'') ''x'' = [7]
   \<and> fst (setter demo ''x=json:{'' (watching [] ''x'')) = Some SyntaxError
   \<and> jar (snd (setter demo ''x=json:{'' (watching [] ''x''))) = [(''x'', ''json:{'')]
   \<and> calls (snd (setter demo ''x=json:{'' (watching [] ''x''))) = []"
  by code_simp

text \<open>
  C9. When nothing is stored under the name of an intercepted write, the old value read by
  the interceptor is \<^verbatim>\<open>null\<close>, and every call the write adds to the history carries \<^verbatim>\<open>null\<close> as
  its old value. A store that holds \<^verbatim>\<open>json:null\<close> under the name gives the same old value
  (\<^verbatim>\<open>JSON.parse("null")\<close> being \<^verbatim>\<open>null\<close>), so a subscriber cannot tell the two apart.
\<close>

theorem absent_cookie_reported_as_null:
  assumes written: "CHR ''='' \<in> set v"
    and absent: "JSCookies_get P (jar s) (text_before_equals v) = None"
  shows "Cookies_get P (jar s) (text_before_equals v) Null = Inr Null
         \<and> (\<exists>cs. calls (snd (setter P v s)) = calls s @ cs \<and> (\<forall>c \<in> set cs. snd (snd c) = Null))
         \<and> (JSCookies_get P j' (text_before_equals v) = Some ''json:null''
              \<and> JSON_parse P ''null'' = Some Null
            \<longrightarrow> Cookies_get P j' (text_before_equals v) Null
                  = Cookies_get P (jar s) (text_before_equals v) Null)"
proof (intro conjI impI)
  show old: "Cookies_get P (jar s) (text_before_equals v) Null = Inr Null"
    using absent by (rule get_absent)
  show "\<exists>cs. calls (snd (setter P v s)) = calls s @ cs \<and> (\<forall>c \<in> set cs. snd (snd c) = Null)"
  proof (cases "Cookies_get P (setCookie P v (jar s)) (text_before_equals v) Null")
    case (Inl err)
    then have "calls (snd (setter P v s)) = calls s @ []"
      using written old by (simp add: setter_new_fails)
    then show ?thesis by (intro exI [of _ "[]"]) simp
  next
    case (Inr new)
    then have "calls (snd (setter P v s))
                 = calls s @ map (\<lambda>f. (f, new, Null)) (registered s (text_before_equals v))"
      using written old by (simp add: setter_notifies)
    then show ?thesis
      by (intro exI [of _ "map (\<lambda>f. (f, new, Null)) (registered s (text_before_equals v))"]) simp
  qed
  assume "JSCookies_get P j' (text_before_equals v) = Some ''json:null''
              \<and> JSON_parse P ''null'' = Some Null"
  then have "Cookies_get P j' (text_before_equals v) Null = Inr Null"
    using get_json [of P j' "text_before_equals v" "''null''" Null Null] by simp
  with old show "Cookies_get P j' (text_before_equals v) Null
                  = Cookies_get P (jar s) (text_before_equals v) Null"
    by simp
qed

text \<open>
  The theorem at work: with an empty store, writing \<^verbatim>\<open>x=1\<close> calls subscriber 7 with
  \<open>("1", null)\<close>; a store holding \<^verbatim>\<open>json:null\<close> reads the same.
\<close>

theorem absent_cookie_reported_as_null_witness:
  "CHR ''='' \<in> set ''x=1''
   \<and> JSCookies_get demo (jar (watching [] ''x'')) (text_before_equals ''x=1'') = None
   \<and> Cookies_get demo (jar (watching [] ''x'')) (text_before_equals ''x=1'') Null = Inr Null
   \<and> (\<exists>cs. calls (snd (setter demo ''x=1'' (watching [] ''x''))) = calls (watching [] ''x'') @ cs
          \<and> (\<forall>c \<in> set cs. snd (snd c) = Null))
   \<and> calls (snd (setter demo ''x=1'' (watching [] ''x''))) = [(7, Str ''1'', Null)]
   \<and> JSCookies_get demo [(''x'', ''json:null'')] (text_before_equals ''x=1'') = Some ''json:null''
   \<and> JSON_parse demo ''null'' = Some Null
   \<and> Cookies_get demo [(''x'', ''json:null'')] (text_before_equals ''x=1'') Null
       = Cookies_get demo (jar (watching [] ''x'')) (text_before_equals ''x=1'') Null"
proof -
  have written: "CHR ''='' \<in> set ''x=1''" by simp
  have absent: "JSCookies_get demo (jar (watching [] ''x'')) (text_before_equals ''x=1'') = None"
    by code_simp
  have called: "calls (snd (setter demo ''x=1'' (watching [] ''x''))) = [(7, Str ''1'', Null)]"
    by code_simp
  have stored: "JSCookies_get demo [(''x'', ''json:null'')] (text_before_equals ''x=1'')
                  = Some ''json:null''"
    by code_simp
  have parsed: "JSON_parse demo ''null'' = Some Null" by code_simp
  show ?thesis
    using written absent called stored parsed
      absent_cookie_reported_as_null [OF written absent, of "[(''x'', ''json:null'')]"]
    by blast
qed

section \<open>Writing a cookie\<close>

text \<open>
  An assignment to \<^verbatim>\<open>document.cookie\<close> reaches the store when the interceptor is not
  installed, when the string has no \<^verbatim>\<open>=\<close>, or when the interceptor can read the old value.
\<close>

lemma assign_jar:
  assumes "installs s = 0 \<or> CHR ''='' \<notin> set v
           \<or> (\<exists>old. Cookies_get P (jar s) (text_before_equals v) Null = Inr old)"
  shows "jar (snd (document_cookie_assign P v s)) = setCookie P v (jar s)"
proof (cases "installs s = 0")
  case True
  then show ?thesis by (simp add: document_cookie_assign_def)
next
  case False
  with assms show ?thesis by (simp add: document_cookie_assign_def setter_jar)
qed

lemma assign_direct:
  "installs s = 0
   \<Longrightarrow> document_cookie_assign P v s = (None, s\<lparr>jar := setCookie P v (jar s)\<rparr>)"
  by (simp add: document_cookie_assign_def)

lemma assign_frame:
  "subscribers (snd (document_cookie_assign P v s)) = subscribers s
   \<and> isIntercepting (snd (document_cookie_assign P v s)) = isIntercepting s
   \<and> installs (snd (document_cookie_assign P v s)) = installs s"
  by (simp add: document_cookie_assign_def setter_frame)

lemma Cookies_set_assign:
  "\<exists>t. Cookies_set P name v opts s = document_cookie_assign P t s"
  by (cases v) (auto simp: Cookies_set_def JSCookies_set_def JSCookies_remove_def)

lemma Cookies_set_frame:
  "subscribers (snd (Cookies_set P name v opts s)) = subscribers s
   \<and> isIntercepting (snd (Cookies_set P name v opts s)) = isIntercepting s
   \<and> installs (snd (Cookies_set P name v opts s)) = installs s"
proof -
  obtain t where "Cookies_set P name v opts s = document_cookie_assign P t s"
    using Cookies_set_assign [of P name v opts s] by blast
  then show ?thesis by (simp add: assign_frame)
qed

text \<open>
  C3, amended. Let the string \<open>str\<close> not start with \<^verbatim>\<open>json:\<close>, let js-cookie return \<open>str\<close> for
  the name once the original setter has stored the text it writes, and let the write reach
  the store. Then after \<^verbatim>\<open>Cookies.set(name, str, opts)\<close> the call \<^verbatim>\<open>Cookies.get(name, d)\<close>
  returns the string \<open>str\<close>, for every default \<open>d\<close>.
\<close>

theorem set_string_get_roundtrip:
  assumes plain: "\<not> startsWith str ''json:''"
    and codec: "JSCookies_get P (setCookie P (JSCookies_set_text P name str opts) (jar s)) name
                  = Some str"
    and reaches: "installs s = 0 \<or> CHR ''='' \<notin> set (JSCookies_set_text P name str opts)
       \<or> (\<exists>old. Cookies_get P (jar s)
             (text_before_equals (JSCookies_set_text P name str opts)) Null = Inr old)"
  shows "Cookies_get P (jar (snd (Cookies_set P name (Str str) opts s))) name d = Inr (Str str)"
proof -
  have "jar (snd (Cookies_set P name (Str str) opts s))
          = setCookie P (JSCookies_set_text P name str opts) (jar s)"
    using reaches by (simp add: Cookies_set_def JSCookies_set_def assign_jar)
  with codec plain show ?thesis by (simp add: get_plain)
qed

text \<open>
  The theorem at work, with the interceptor installed and \<^verbatim>\<open>old\<close> stored: \<^verbatim>\<open>hello\<close> comes back.
\<close>

theorem set_string_get_roundtrip_witness:
  "\<not> startsWith ''hello'' ''json:''
   \<and> JSCookies_get demo
        (setCookie demo (JSCookies_set_text demo ''n'' ''hello'' ())
           (jar (watching [(''n'', ''old'')] ''n''))) ''n''
       = Some ''hello''
   \<and> Cookies_get demo (jar (watching [(''n'', ''old'')] ''n''))
        (text_before_equals (JSCookies_set_text demo ''n'' ''hello'' ())) Null
       = Inr (Str ''old'')
   \<and> Cookies_get demo
        (jar (snd (Cookies_set demo ''n'' (Str ''hello'') () (watching [(''n'', ''old'')] ''n''))))
        ''n'' (Str ''d'')
       = Inr (Str ''hello'')"
proof -
  have plain: "\<not> startsWith ''hello'' ''json:''" by code_simp
  have codec: "JSCookies_get demo
        (setCookie demo (JSCookies_set_text demo ''n'' ''hello'' ())
           (jar (watching [(''n'', ''old'')] ''n''))) ''n'' = Some ''hello''"
    by code_simp
  have old: "Cookies_get demo (jar (watching [(''n'', ''old'')] ''n''))
        (text_before_equals (JSCookies_set_text demo ''n'' ''hello'' ())) Null = Inr (Str ''old'')"
    by code_simp
  then have reaches: "installs (watching [(''n'', ''old'')] ''n'') = 0
       \<or> CHR ''='' \<notin> set (JSCookies_set_text demo ''n'' ''hello'' ())
       \<or> (\<exists>old. Cookies_get demo (jar (watching [(''n'', ''old'')] ''n''))
             (text_before_equals (JSCookies_set_text demo ''n'' ''hello'' ())) Null = Inr old)"
    by blast
  show ?thesis
    using plain codec old set_string_get_roundtrip [OF plain codec reaches, of "Str ''d''"]
    by blast
qed

text \<open>
  C3 as stated fails. The string \<^verbatim>\<open>json:true\<close> is stored as it is and read back as the
  boolean; the string \<^verbatim>\<open>json:{\<close> is stored and the read throws. And with the interceptor
  installed over a stored \<^verbatim>\<open>json:{\<close>, \<^verbatim>\<open>Cookies.set("x", "hello")\<close> throws before anything is
  written.
\<close>

theorem json_prefixed_string_not_returned:
  "JSCookies_get demo (jar (snd (Cookies_set demo ''n'' (Str ''json:true'') () (init [])))) ''n''
     = Some ''json:true''
   \<and> Cookies_get demo (jar (snd (Cookies_set demo ''n'' (Str ''json:true'') () (init [])))) ''n''
        (Str ''d'')
       = Inr (Structured True)
   \<and> Cookies_get demo (jar (snd (Cookies_set demo ''n'' (Str ''json:{'') () (init [])))) ''n''
        (Str ''d'')
       = Inl SyntaxError
   \<and> fst (Cookies_set demo ''x'' (Str ''hello'') () (watching [(''x'', ''json:{'')] ''x''))
       = Some SyntaxError
   \<and> jar (snd (Cookies_set demo ''x'' (Str ''hello'') () (watching [(''x'', ''json:{'')] ''x'')))
       = [(''x'', ''json:{'')]
   \<and> Cookies_get demo
        (jar (snd (Cookies_set demo ''x'' (Str ''hello'') () (watching [(''x'', ''json:{'')] ''x''))))
        ''x'' (Str ''d'')
       = Inl SyntaxError"
  by code_simp

text \<open>
  C6, amended. Let \<open>v\<close> be neither \<^verbatim>\<open>undefined\<close> nor a string, let \<^verbatim>\<open>JSON.parse\<close> return \<open>v\<close> on
  \<^verbatim>\<open>JSON.stringify(v)\<close>, let js-cookie return the written value for the name once the
  original setter has stored the text it writes, and let the write reach the store. Then
  after \<^verbatim>\<open>Cookies.set(name, v, opts)\<close> the stored value is \<^verbatim>\<open>json:\<close> followed by
  \<^verbatim>\<open>JSON.stringify(v)\<close>, and \<^verbatim>\<open>Cookies.get(name, d)\<close> returns \<open>v\<close>, for every default \<open>d\<close>.
\<close>

theorem set_structure_get_roundtrip:
  assumes defined: "v \<noteq> Undefined" and nonstring: "\<not> is_string v"
    and serializable: "JSON_parse P (JSON_stringify P v) = Some v"
    and codec: "JSCookies_get P
        (setCookie P (JSCookies_set_text P name (''json:'' @ JSON_stringify P v) opts) (jar s)) name
          = Some (''json:'' @ JSON_stringify P v)"
    and reaches: "installs s = 0
       \<or> CHR ''='' \<notin> set (JSCookies_set_text P name (''json:'' @ JSON_stringify P v) opts)
       \<or> (\<exists>old. Cookies_get P (jar s)
             (text_before_equals (JSCookies_set_text P name (''json:'' @ JSON_stringify P v) opts)) Null
               = Inr old)"
  shows "JSCookies_get P (jar (snd (Cookies_set P name v opts s))) name
           = Some (''json:'' @ JSON_stringify P v)
         \<and> Cookies_get P (jar (snd (Cookies_set P name v opts s))) name d = Inr v"
proof -
  have "Cookies_set P name v opts s = JSCookies_set P name (''json:'' @ JSON_stringify P v) opts s"
    using defined nonstring by (cases v) (simp_all add: Cookies_set_def is_string_def)
  then have "jar (snd (Cookies_set P name v opts s))
          = setCookie P (JSCookies_set_text P name (''json:'' @ JSON_stringify P v) opts) (jar s)"
    using reaches by (simp add: JSCookies_set_def assign_jar)
  with codec serializable show ?thesis by (simp add: get_json)
qed

text \<open>
  The theorem at work, with the interceptor installed and \<^verbatim>\<open>old\<close> stored: the boolean
  \<^verbatim>\<open>true\<close> is stored as \<^verbatim>\<open>json:true\<close> and comes back as the boolean.
\<close>

theorem set_structure_get_roundtrip_witness:
  "Structured True \<noteq> (Undefined :: bool jsvalue)
   \<and> \<not> is_string (Structured True)
   \<and> JSON_parse demo (JSON_stringify demo (Structured True)) = Some (Structured True)
   \<and> JSCookies_get demo
        (setCookie demo
           (JSCookies_set_text demo ''n'' (''json:'' @ JSON_stringify demo (Structured True)) ())
           (jar (watching [(''n'', ''old'')] ''n''))) ''n''
       = Some (''json:'' @ JSON_stringify demo (Structured True))
   \<and> Cookies_get demo (jar (watching [(''n'', ''old'')] ''n''))
        (text_before_equals
           (JSCookies_set_text demo ''n'' (''json:'' @ JSON_stringify demo (Structured True)) ()))
        Null
       = Inr (Str ''old'')
   \<and> JSCookies_get demo
        (jar (snd (Cookies_set demo ''n'' (Structured True) () (watching [(''n'', ''old'')] ''n''))))
        ''n''
       = Some ''json:true''
   \<and> Cookies_get demo
        (jar (snd (Cookies_set demo ''n'' (Structured True) () (watching [(''n'', ''old'')] ''n''))))
        ''n'' (Str ''d'')
       = Inr (Structured True)"
proof -
  have defined: "Structured True \<noteq> (Undefined :: bool jsvalue)" by simp
  have nonstring: "\<not> is_string (Structured True)" by (simp add: is_string_def)
  have serializable:
    "JSON_parse demo (JSON_stringify demo (Structured True)) = Some (Structured True)"
    by code_simp
  have codec: "JSCookies_get demo
        (setCookie demo
           (JSCookies_set_text demo ''n'' (''json:'' @ JSON_stringify demo (Structured True)) ())
           (jar (watching [(''n'', ''old'')] ''n''))) ''n''
       = Some (''json:'' @ JSON_stringify demo (Structured True))"
    by code_simp
  have old: "Cookies_get demo (jar (watching [(''n'', ''old'')] ''n''))
        (text_before_equals
           (JSCookies_set_text demo ''n'' (''json:'' @ JSON_stringify demo (Structured True)) ()))
        Null
       = Inr (Str ''old'')"
    by code_simp
  then have reaches: "installs (watching [(''n'', ''old'')] ''n'') = 0
       \<or> CHR ''='' \<notin> set
            (JSCookies_set_text demo ''n'' (''json:'' @ JSON_stringify demo (Structured True)) ())
       \<or> (\<exists>old. Cookies_get demo (jar (watching [(''n'', ''old'')] ''n''))
             (text_before_equals
                (JSCookies_set_text demo ''n'' (''json:'' @ JSON_stringify demo (Structured True)) ()))
             Null = Inr old)"
    by blast
  have written: "''json:'' @ JSON_stringify demo (Structured True) = ''json:true''"
    by code_simp
  show ?thesis
    using defined nonstring serializable codec old written
      set_structure_get_roundtrip [OF defined nonstring serializable codec reaches, of "Str ''d''"]
    by metis
qed

text \<open>
  C6 as stated fails. The boolean \<^verbatim>\<open>true\<close> is serializable and the codec would store and
  return \<^verbatim>\<open>json:true\<close>; but with the interceptor installed over a stored \<^verbatim>\<open>json:{\<close>,
  \<^verbatim>\<open>Cookies.set("x", true)\<close> throws before anything is written, and the read that follows
  throws as well.
\<close>

theorem structure_not_stored_over_corrupt_cookie:
  "JSON_parse demo (JSON_stringify demo (Structured True)) = Some (Structured True)
   \<and> JSCookies_get demo
        (setCookie demo (JSCookies_set_text demo ''x'' ''json:true'' ())
           (jar (watching [(''x'', ''json:{'')] ''x''))) ''x''
       = Some ''json:true''
   \<and> fst (Cookies_set demo ''x'' (Structured True) () (watching [(''x'', ''json:{'')] ''x''))
       = Some SyntaxError
   \<and> JSCookies_get demo
        (jar (snd (Cookies_set demo ''x'' (Structured True) () (watching [(''x'', ''json:{'')] ''x''))))
        ''x''
       = Some ''json:{''
   \<and> Cookies_get demo
        (jar (snd (Cookies_set demo ''x'' (Structured True) () (watching [(''x'', ''json:{'')] ''x''))))
        ''x'' (Str ''d'')
       = Inl SyntaxError"
  by code_simp

text \<open>
  C10, amended. \<^verbatim>\<open>Cookies.set(name, null, opts)\<close> takes the branch that stores
  \<^verbatim>\<open>json:\<close> followed by \<^verbatim>\<open>JSON.stringify(null)\<close>, and so does every value but \<^verbatim>\<open>undefined\<close> take
  a storing branch. With \<^verbatim>\<open>JSON.stringify(null)\<close> being \<^verbatim>\<open>null\<close> and \<^verbatim>\<open>JSON.parse("null")\<close>
  being \<^verbatim>\<open>null\<close>, a codec that returns what it stored, and a write that reaches the store, the
  stored value is \<^verbatim>\<open>json:null\<close> and \<^verbatim>\<open>Cookies.get(name, d)\<close> returns \<^verbatim>\<open>null\<close>, whatever \<open>d\<close> is.
\<close>

theorem set_null_is_stored:
  assumes stringify_null: "JSON_stringify P Null = ''null''"
    and parse_null: "JSON_parse P ''null'' = Some Null"
    and codec: "JSCookies_get P
        (setCookie P (JSCookies_set_text P name ''json:null'' opts) (jar s)) name = Some ''json:null''"
    and reaches: "installs s = 0
       \<or> CHR ''='' \<notin> set (JSCookies_set_text P name ''json:null'' opts)
       \<or> (\<exists>old. Cookies_get P (jar s)
             (text_before_equals (JSCookies_set_text P name ''json:null'' opts)) Null = Inr old)"
  shows "Cookies_set P name Null opts s = JSCookies_set P name ''json:null'' opts s
         \<and> JSCookies_get P (jar (snd (Cookies_set P name Null opts s))) name = Some ''json:null''
         \<and> Cookies_get P (jar (snd (Cookies_set P name Null opts s))) name d = Inr Null
         \<and> (w \<noteq> Undefined
            \<longrightarrow> (\<exists>t. Cookies_set P name w opts s = JSCookies_set P name t opts s))"
proof -
  have branch: "Cookies_set P name Null opts s = JSCookies_set P name ''json:null'' opts s"
    using stringify_null by (simp add: Cookies_set_def)
  then have "jar (snd (Cookies_set P name Null opts s))
          = setCookie P (JSCookies_set_text P name ''json:null'' opts) (jar s)"
    using reaches by (simp add: JSCookies_set_def assign_jar)
  with codec parse_null
  have stored: "JSCookies_get P (jar (snd (Cookies_set P name Null opts s))) name = Some ''json:null''"
    and read: "Cookies_get P (jar (snd (Cookies_set P name Null opts s))) name d = Inr Null"
    using get_json [of P _ name "''null''" Null d] by simp_all
  have others: "w \<noteq> Undefined
      \<longrightarrow> (\<exists>t. Cookies_set P name w opts s = JSCookies_set P name t opts s)"
    by (cases w) (auto simp: Cookies_set_def)
  from branch stored read others show ?thesis by blast
qed

text \<open>
  The theorem at work, with the interceptor installed and \<^verbatim>\<open>old\<close> stored: \<^verbatim>\<open>null\<close> is stored as
  \<^verbatim>\<open>json:null\<close> and read back as \<^verbatim>\<open>null\<close>, not as the default.
\<close>

theorem set_null_is_stored_witness:
  "JSON_stringify demo Null = ''null''
   \<and> JSON_parse demo ''null'' = Some Null
   \<and> JSCookies_get demo
        (setCookie demo (JSCookies_set_text demo ''n'' ''json:null'' ())
           (jar (watching [(''n'', ''old'')] ''n''))) ''n''
       = Some ''json:null''
   \<and> Cookies_get demo (jar (watching [(''n'', ''old'')] ''n''))
        (text_before_equals (JSCookies_set_text demo ''n'' ''json:null'' ())) Null
       = Inr (Str ''old'')
   \<and> Cookies_set demo ''n'' Null () (watching [(''n'', ''old'')] ''n'')
       = JSCookies_set demo ''n'' ''json:null'' () (watching [(''n'', ''old'')] ''n'')
   \<and> JSCookies_get demo
        (jar (snd (Cookies_set demo ''n'' Null () (watching [(''n'', ''old'')] ''n'')))) ''n''
       = Some ''json:null''
   \<and> Cookies_get demo
        (jar (snd (Cookies_set demo ''n'' Null () (watching [(''n'', ''old'')] ''n'')))) ''n''
        (Str ''d'')
       = Inr Null
   \<and> Structured False \<noteq> (Undefined :: bool jsvalue)
   \<and> (\<exists>t. Cookies_set demo ''n'' (Structured False) () (watching [(''n'', ''old'')] ''n'')
             = JSCookies_set demo ''n'' t () (watching [(''n'', ''old'')] ''n''))"
proof -
  have stringify_null: "JSON_stringify demo Null = ''null''" by code_simp
  have parse_null: "JSON_parse demo ''null'' = Some Null" by code_simp
  have codec: "JSCookies_get demo
        (setCookie demo (JSCookies_set_text demo ''n'' ''json:null'' ())
           (jar (watching [(''n'', ''old'')] ''n''))) ''n'' = Some ''json:null''"
    by code_simp
  have old: "Cookies_get demo (jar (watching [(''n'', ''old'')] ''n''))
        (text_before_equals (JSCookies_set_text demo ''n'' ''json:null'' ())) Null
       = Inr (Str ''old'')"
    by code_simp
  then have reaches: "installs (watching [(''n'', ''old'')] ''n'') = 0
       \<or> CHR ''='' \<notin> set (JSCookies_set_text demo ''n'' ''json:null'' ())
       \<or> (\<exists>old. Cookies_get demo (jar (watching [(''n'', ''old'')] ''n''))
             (text_before_equals (JSCookies_set_text demo ''n'' ''json:null'' ())) Null = Inr old)"
    by blast
  have other: "Structured False \<noteq> (Undefined :: bool jsvalue)" by simp
  show ?thesis
    using stringify_null parse_null codec old other
      set_null_is_stored [OF stringify_null parse_null codec reaches,
        of "Str ''d''" "Structured False"]
    by blast
qed

text \<open>
  C10 as stated fails. With the interceptor installed over a stored \<^verbatim>\<open>json:{\<close>,
  \<^verbatim>\<open>Cookies.set("x", null)\<close> throws before anything is written: \<^verbatim>\<open>json:null\<close> is not stored,
  though the codec would store and return it, and the read that follows throws.
\<close>

theorem null_not_stored_over_corrupt_cookie:
  "JSCookies_get demo
        (setCookie demo (JSCookies_set_text demo ''x'' ''json:null'' ())
           (jar (watching [(''x'', ''json:{'')] ''x''))) ''x''
       = Some ''json:null''
   \<and> fst (Cookies_set demo ''x'' Null () (watching [(''x'', ''json:{'')] ''x'')) = Some SyntaxError
   \<and> JSCookies_get demo
        (jar (snd (Cookies_set demo ''x'' Null () (watching [(''x'', ''json:{'')] ''x'')))) ''x''
       = Some ''json:{''
   \<and> Cookies_get demo
        (jar (snd (Cookies_set demo ''x'' Null () (watching [(''x'', ''json:{'')] ''x'')))) ''x''
        (Str ''d'')
       = Inl SyntaxError"
  by code_simp

text \<open>
  C7, amended. \<^verbatim>\<open>Cookies.get(name, d)\<close> returns \<open>d\<close> and throws nothing when js-cookie finds
  no cookie under the name. \<^verbatim>\<open>Cookies.set(name, undefined, opts)\<close> is
  \<^verbatim>\<open>JSCookies.remove(name, opts)\<close>. When js-cookie finds no cookie under the name once the
  original setter has stored the text of the removal, and the write reaches the store, that
  text is what the store receives and \<^verbatim>\<open>Cookies.get(name, d)\<close> then returns \<open>d\<close>.
\<close>

theorem get_default_and_delete:
  "(JSCookies_get P j name = None \<longrightarrow> Cookies_get P j name d = Inr d)
   \<and> Cookies_set P name Undefined opts s = JSCookies_remove P name opts s
   \<and> (JSCookies_get P (setCookie P (JSCookies_remove_text P name opts) (jar s)) name = None
        \<and> (installs s = 0 \<or> CHR ''='' \<notin> set (JSCookies_remove_text P name opts)
             \<or> (\<exists>old. Cookies_get P (jar s)
                   (text_before_equals (JSCookies_remove_text P name opts)) Null = Inr old))
      \<longrightarrow> jar (snd (Cookies_set P name Undefined opts s))
            = setCookie P (JSCookies_remove_text P name opts) (jar s)
          \<and> Cookies_get P (jar (snd (Cookies_set P name Undefined opts s))) name d = Inr d)"
proof (intro conjI impI)
  assume "JSCookies_get P j name = None"
  then show "Cookies_get P j name d = Inr d" by (rule get_absent)
next
  show branch: "Cookies_set P name Undefined opts s = JSCookies_remove P name opts s"
    by (simp add: Cookies_set_def)
  assume h: "JSCookies_get P (setCookie P (JSCookies_remove_text P name opts) (jar s)) name = None
        \<and> (installs s = 0 \<or> CHR ''='' \<notin> set (JSCookies_remove_text P name opts)
             \<or> (\<exists>old. Cookies_get P (jar s)
                   (text_before_equals (JSCookies_remove_text P name opts)) Null = Inr old))"
  then show written: "jar (snd (Cookies_set P name Undefined opts s))
          = setCookie P (JSCookies_remove_text P name opts) (jar s)"
    by (simp add: branch JSCookies_remove_def assign_jar)
  from h show "Cookies_get P (jar (snd (Cookies_set P name Undefined opts s))) name d = Inr d"
    by (simp add: written get_absent)
qed

text \<open>
  The theorem at work: an empty store gives the default; and with the interceptor installed
  and \<^verbatim>\<open>old\<close> stored, \<^verbatim>\<open>Cookies.set("n", undefined)\<close> empties the store and the default comes
  back.
\<close>

theorem get_default_and_delete_witness:
  "JSCookies_get demo [] ''n'' = None
   \<and> Cookies_get demo [] ''n'' (Str ''d'') = Inr (Str ''d'')
   \<and> JSCookies_get demo
        (setCookie demo (JSCookies_remove_text demo ''n'' ())
           (jar (watching [(''n'', ''old'')] ''n''))) ''n''
       = None
   \<and> Cookies_get demo (jar (watching [(''n'', ''old'')] ''n''))
        (text_before_equals (JSCookies_remove_text demo ''n'' ())) Null
       = Inr (Str ''old'')
   \<and> jar (snd (Cookies_set demo ''n'' Undefined () (watching [(''n'', ''old'')] ''n''))) = []
   \<and> Cookies_get demo
        (jar (snd (Cookies_set demo ''n'' Undefined () (watching [(''n'', ''old'')] ''n'')))) ''n''
        (Str ''d'')
       = Inr (Str ''d'')"
proof -
  have none: "JSCookies_get demo [] ''n'' = None" by code_simp
  have removed: "JSCookies_get demo
        (setCookie demo (JSCookies_remove_text demo ''n'' ())
           (jar (watching [(''n'', ''old'')] ''n''))) ''n'' = None"
    by code_simp
  have old: "Cookies_get demo (jar (watching [(''n'', ''old'')] ''n''))
        (text_before_equals (JSCookies_remove_text demo ''n'' ())) Null = Inr (Str ''old'')"
    by code_simp
  have emptied: "jar (snd (Cookies_set demo ''n'' Undefined () (watching [(''n'', ''old'')] ''n'')))
                   = []"
    by code_simp
  note absent = get_default_and_delete
    [where P = demo and j = "[]" and name = "''n''" and d = "Str ''d''"]
  note deleted = get_default_and_delete
    [where P = demo and name = "''n''" and d = "Str ''d''" and opts = "()"
       and s = "watching [(''n'', ''old'')] ''n''"]
  show ?thesis
    using none removed old emptied absent deleted by blast
qed

text \<open>
  C7 as stated fails. With the interceptor installed over a stored \<^verbatim>\<open>json:{\<close>,
  \<^verbatim>\<open>Cookies.set("x", undefined)\<close> throws before anything is written: the cookie is still
  there, though the codec's removal would delete it, and the read that follows throws
  instead of returning the default.
\<close>

theorem cookie_not_deleted_over_corrupt_cookie:
  "JSCookies_get demo
        (setCookie demo (JSCookies_remove_text demo ''x'' ())
           (jar (watching [(''x'', ''json:{'')] ''x''))) ''x''
       = None
   \<and> fst (Cookies_set demo ''x'' Undefined () (watching [(''x'', ''json:{'')] ''x''))
       = Some SyntaxError
   \<and> JSCookies_get demo
        (jar (snd (Cookies_set demo ''x'' Undefined () (watching [(''x'', ''json:{'')] ''x''))))
        ''x''
       = Some ''json:{''
   \<and> Cookies_get demo
        (jar (snd (Cookies_set demo ''x'' Undefined () (watching [(''x'', ''json:{'')] ''x''))))
        ''x'' (Str ''d'')
       = Inl SyntaxError"
  by code_simp

section \<open>Installing the interceptor\<close>

lemma unsubscribe_frame:
  "isIntercepting (snd (unsubscribe name f s)) = isIntercepting s
   \<and> installs (snd (unsubscribe name f s)) = installs s
   \<and> jar (snd (unsubscribe name f s)) = jar s
   \<and> calls (snd (unsubscribe name f s)) = calls s"
  by (simp add: unsubscribe_def split: option.split)

lemma startIntercepting_installed: "isIntercepting s \<Longrightarrow> startIntercepting e s = s"
  by (simp add: startIntercepting_def)

lemma startIntercepting_unavailable:
  "interception_unavailable e \<Longrightarrow> startIntercepting e s = s"
  by (auto simp: startIntercepting_def interception_unavailable_def)

text \<open>The flag and the count of installations move together, from 0 to 1 and no further.\<close>

lemma startIntercepting_once:
  assumes "installs s \<le> 1" and "isIntercepting s \<longleftrightarrow> installs s = 1"
  shows "installs (startIntercepting e s) \<le> 1
         \<and> (isIntercepting (startIntercepting e s) \<longleftrightarrow> installs (startIntercepting e s) = 1)"
  using assms by (auto simp: startIntercepting_def)

lemma step_once:
  assumes "installs s \<le> 1" and "isIntercepting s \<longleftrightarrow> installs s = 1"
  shows "installs (step P a s) \<le> 1
         \<and> (isIntercepting (step P a s) \<longleftrightarrow> installs (step P a s) = 1)"
proof (cases a)
  case (Subscribe e name f)
  then show ?thesis
    using startIntercepting_once [OF assms, of e]
    by (simp add: subscribe_def register_frame)
next
  case (Unsubscribe name f)
  then show ?thesis using assms by (simp add: unsubscribe_frame)
next
  case (Set name v opts)
  then show ?thesis using assms by (simp add: Cookies_set_frame)
next
  case (Assign v)
  then show ?thesis using assms by (simp add: assign_frame)
qed

lemma run_once:
  assumes "installs s \<le> 1" and "isIntercepting s \<longleftrightarrow> installs s = 1"
  shows "installs (run P s as) \<le> 1
         \<and> (isIntercepting (run P s as) \<longleftrightarrow> installs (run P s as) = 1)"
  using assms
proof (induction as arbitrary: s)
  case Nil
  then show ?case by simp
next
  case (Cons a as)
  have "installs (step P a s) \<le> 1"
    and "isIntercepting (step P a s) \<longleftrightarrow> installs (step P a s) = 1"
    using step_once [OF Cons.prems, of P a] by simp_all
  then show ?case using Cons.IH by simp
qed

lemma step_installed:
  assumes "isIntercepting s"
  shows "isIntercepting (step P a s) \<and> installs (step P a s) = installs s"
  using assms
  by (cases a)
    (simp_all add: subscribe_def startIntercepting_installed register_frame unsubscribe_frame
      Cookies_set_frame assign_frame)

lemma run_installed:
  assumes "isIntercepting s"
  shows "isIntercepting (run P s as) \<and> installs (run P s as) = installs s"
  using assms
proof (induction as arbitrary: s)
  case Nil
  then show ?case by simp
next
  case (Cons a as)
  then show ?case using step_installed [of s P a] by simp
qed

text \<open>
  C4. Whatever a page does from the start, the accessor has been replaced at most once, and
  the flag is set exactly when it has been replaced once. Once the flag is set,
  \<^verbatim>\<open>#startIntercepting\<close> changes nothing, \<^verbatim>\<open>subscribe\<close> is its registry part alone, and whatever
  the page does next leaves the flag set and the number of installations as it is.
\<close>

theorem interceptor_installed_at_most_once:
  "installs (run P (init j) as) \<le> 1
   \<and> (isIntercepting (run P (init j) as) \<longleftrightarrow> installs (run P (init j) as) = 1)
   \<and> (isIntercepting (run P (init j) as) \<longrightarrow>
        startIntercepting e (run P (init j) as) = run P (init j) as
        \<and> subscribe e name f (run P (init j) as) = register name f (run P (init j) as)
        \<and> installs (run P (run P (init j) as) bs) = installs (run P (init j) as)
        \<and> isIntercepting (run P (run P (init j) as) bs))"
proof -
  have once: "installs (run P (init j) as) \<le> 1
      \<and> (isIntercepting (run P (init j) as) \<longleftrightarrow> installs (run P (init j) as) = 1)"
    by (intro run_once) (simp_all add: init_def)
  show ?thesis
    using once run_installed [of "run P (init j) as" P bs]
    by (simp add: subscribe_def startIntercepting_installed)
qed

text \<open>
  The theorem at work: a subscription with cookies disabled, two with interception
  available and a write install the interceptor once; two more operations change nothing
  about it.
\<close>

theorem interceptor_installed_at_most_once_witness:
  "isIntercepting (run demo (init [])
      [Subscribe disabled ''a'' 1, Subscribe enabled ''a'' 2, Subscribe enabled ''b'' 3,
       Assign ''a=1''])
   \<and> installs (run demo (init [])
      [Subscribe disabled ''a'' 1, Subscribe enabled ''a'' 2, Subscribe enabled ''b'' 3,
       Assign ''a=1'']) = 1
   \<and> startIntercepting enabled (run demo (init [])
      [Subscribe disabled ''a'' 1, Subscribe enabled ''a'' 2, Subscribe enabled ''b'' 3,
       Assign ''a=1''])
      = run demo (init [])
      [Subscribe disabled ''a'' 1, Subscribe enabled ''a'' 2, Subscribe enabled ''b'' 3,
       Assign ''a=1'']
   \<and> subscribe enabled ''c'' 5 (run demo (init [])
      [Subscribe disabled ''a'' 1, Subscribe enabled ''a'' 2, Subscribe enabled ''b'' 3,
       Assign ''a=1''])
      = register ''c'' 5 (run demo (init [])
      [Subscribe disabled ''a'' 1, Subscribe enabled ''a'' 2, Subscribe enabled ''b'' 3,
       Assign ''a=1''])
   \<and> installs (run demo (run demo (init [])
      [Subscribe disabled ''a'' 1, Subscribe enabled ''a'' 2, Subscribe enabled ''b'' 3,
       Assign ''a=1'']) [Subscribe enabled ''c'' 4, Unsubscribe ''a'' 1]) = 1
   \<and> isIntercepting (run demo (run demo (init [])
      [Subscribe disabled ''a'' 1, Subscribe enabled ''a'' 2, Subscribe enabled ''b'' 3,
       Assign ''a=1'']) [Subscribe enabled ''c'' 4, Unsubscribe ''a'' 1])"
proof -
  have flag: "isIntercepting (run demo (init [])
      [Subscribe disabled ''a'' 1, Subscribe enabled ''a'' 2, Subscribe enabled ''b'' 3,
       Assign ''a=1''])"
    by code_simp
  show ?thesis
    using flag interceptor_installed_at_most_once
      [where P = demo and j = "[]" and e = enabled and name = "''c''" and f = 5
         and as = "[Subscribe disabled ''a'' 1, Subscribe enabled ''a'' 2,
                    Subscribe enabled ''b'' 3, Assign ''a=1'']"
         and bs = "[Subscribe enabled ''c'' 4, Unsubscribe ''a'' 1]"]
    by metis
qed

lemma step_unavailable:
  assumes "subscribes_unavailable a"
    and "installs s = 0" and "\<not> isIntercepting s" and "calls s = []"
  shows "installs (step P a s) = 0 \<and> \<not> isIntercepting (step P a s) \<and> calls (step P a s) = []"
proof (cases a)
  case (Subscribe e name f)
  with assms show ?thesis
    by (simp add: subscribes_unavailable_def subscribe_def startIntercepting_unavailable
        register_frame)
next
  case (Unsubscribe name f)
  with assms show ?thesis by (simp add: unsubscribe_frame)
next
  case (Set name v opts)
  obtain t where "Cookies_set P name v opts s = document_cookie_assign P t s"
    using Cookies_set_assign [of P name v opts s] by blast
  with Set assms show ?thesis by (simp add: assign_direct)
next
  case (Assign v)
  with assms show ?thesis by (simp add: assign_direct)
qed

lemma run_unavailable:
  assumes "\<forall>a \<in> set as. subscribes_unavailable a"
    and "installs s = 0" and "\<not> isIntercepting s" and "calls s = []"
  shows "installs (run P s as) = 0 \<and> \<not> isIntercepting (run P s as) \<and> calls (run P s as) = []"
  using assms
proof (induction as arbitrary: s)
  case Nil
  then show ?case by simp
next
  case (Cons a as)
  have "installs (step P a s) = 0 \<and> \<not> isIntercepting (step P a s) \<and> calls (step P a s) = []"
    using Cons.prems by (intro step_unavailable) simp_all
  with Cons show ?case by simp
qed

text \<open>
  C5. When cookies are disabled or the accessor is not configurable, \<^verbatim>\<open>#startIntercepting\<close>
  returns with the state as it was. On a page where every subscription meets such
  conditions, whatever else the page does: the flag stays unset, the accessor is never
  replaced, and no subscriber is ever called. Every assignment to \<^verbatim>\<open>document.cookie\<close> is the
  original setter's and throws nothing. \<^verbatim>\<open>Cookies.set\<close> throws nothing and hands the original
  setter the text of the codec: that of \<^verbatim>\<open>JSCookies.remove(name, opts)\<close> for \<^verbatim>\<open>undefined\<close>, that
  of \<^verbatim>\<open>JSCookies.set(name, str, opts)\<close> for a string, and that of \<^verbatim>\<open>JSCookies.set\<close> with
  \<^verbatim>\<open>json:\<close> and the JSON encoding for any other value. \<^verbatim>\<open>Cookies.get\<close> returns the default
  where the codec finds nothing, and what \<^verbatim>\<open>Cookies.set\<close> wrote where the codec returns what
  it stored: the string (when it does not start with \<^verbatim>\<open>json:\<close>), the structure (when
  \<^verbatim>\<open>JSON.parse\<close> inverts \<^verbatim>\<open>JSON.stringify\<close> on it), the default after a removal.
\<close>

theorem interception_unavailable_degrades:
  assumes "\<forall>a \<in> set as. subscribes_unavailable a"
  shows "(interception_unavailable e \<longrightarrow> startIntercepting e s = s)
         \<and> \<not> isIntercepting (run P (init j) as)
         \<and> installs (run P (init j) as) = 0
         \<and> calls (run P (init j) as) = []
         \<and> document_cookie_assign P v (run P (init j) as)
             = (None, (run P (init j) as)\<lparr>jar := setCookie P v (jar (run P (init j) as))\<rparr>)
         \<and> Cookies_set P name Undefined opts (run P (init j) as)
             = (None, (run P (init j) as)
                  \<lparr>jar := setCookie P (JSCookies_remove_text P name opts) (jar (run P (init j) as))\<rparr>)
         \<and> Cookies_set P name (Str str) opts (run P (init j) as)
             = (None, (run P (init j) as)
                  \<lparr>jar := setCookie P (JSCookies_set_text P name str opts) (jar (run P (init j) as))\<rparr>)
         \<and> (x \<noteq> Undefined \<and> \<not> is_string x
            \<longrightarrow> Cookies_set P name x opts (run P (init j) as)
                 = (None, (run P (init j) as)
                      \<lparr>jar := setCookie P
                         (JSCookies_set_text P name (''json:'' @ JSON_stringify P x) opts)
                         (jar (run P (init j) as))\<rparr>))
         \<and> (JSCookies_get P (jar (run P (init j) as)) name = None
            \<longrightarrow> Cookies_get P (jar (run P (init j) as)) name d = Inr d)
         \<and> (\<not> startsWith str ''json:''
              \<and> JSCookies_get P
                   (setCookie P (JSCookies_set_text P name str opts) (jar (run P (init j) as))) name
                  = Some str
            \<longrightarrow> Cookies_get P (jar (snd (Cookies_set P name (Str str) opts (run P (init j) as))))
                  name d = Inr (Str str))
         \<and> (x \<noteq> Undefined \<and> \<not> is_string x
              \<and> JSON_parse P (JSON_stringify P x) = Some x
              \<and> JSCookies_get P
                   (setCookie P (JSCookies_set_text P name (''json:'' @ JSON_stringify P x) opts)
                      (jar (run P (init j) as))) name
                  = Some (''json:'' @ JSON_stringify P x)
            \<longrightarrow> Cookies_get P (jar (snd (Cookies_set P name x opts (run P (init j) as))))
                  name d = Inr x)
         \<and> (JSCookies_get P
                (setCookie P (JSCookies_remove_text P name opts) (jar (run P (init j) as))) name
               = None
            \<longrightarrow> Cookies_get P (jar (snd (Cookies_set P name Undefined opts (run P (init j) as))))
                  name d = Inr d)"
proof -
  define R where "R = run P (init j) as"
  have r: "installs R = 0 \<and> \<not> isIntercepting R \<and> calls R = []"
    unfolding R_def using assms by (intro run_unavailable) (simp_all add: init_def)
  have direct: "document_cookie_assign P t R = (None, R\<lparr>jar := setCookie P t (jar R)\<rparr>)" for t
    using r by (simp add: assign_direct)
  have removal: "Cookies_set P name Undefined opts R
                   = (None, R\<lparr>jar := setCookie P (JSCookies_remove_text P name opts) (jar R)\<rparr>)"
    by (simp add: Cookies_set_def JSCookies_remove_def direct)
  have string: "Cookies_set P name (Str str) opts R
                   = (None, R\<lparr>jar := setCookie P (JSCookies_set_text P name str opts) (jar R)\<rparr>)"
    by (simp add: Cookies_set_def JSCookies_set_def direct)
  have encoded: "Cookies_set P name x opts R
       = (None, R\<lparr>jar := setCookie P
                   (JSCookies_set_text P name (''json:'' @ JSON_stringify P x) opts) (jar R)\<rparr>)"
    if "x \<noteq> Undefined \<and> \<not> is_string x"
    using that by (cases x) (simp_all add: Cookies_set_def JSCookies_set_def direct is_string_def)
  have start: "interception_unavailable e \<longrightarrow> startIntercepting e s = s"
    by (simp add: startIntercepting_unavailable)
  have absent: "JSCookies_get P (jar R) name = None \<longrightarrow> Cookies_get P (jar R) name d = Inr d"
    by (simp add: get_absent)
  have read_string: "\<not> startsWith str ''json:''
        \<and> JSCookies_get P (setCookie P (JSCookies_set_text P name str opts) (jar R)) name = Some str
      \<longrightarrow> Cookies_get P (jar (snd (Cookies_set P name (Str str) opts R))) name d = Inr (Str str)"
    by (simp add: string get_plain)
  have read_encoded: "x \<noteq> Undefined \<and> \<not> is_string x
        \<and> JSON_parse P (JSON_stringify P x) = Some x
        \<and> JSCookies_get P
             (setCookie P (JSCookies_set_text P name (''json:'' @ JSON_stringify P x) opts) (jar R))
             name
            = Some (''json:'' @ JSON_stringify P x)
      \<longrightarrow> Cookies_get P (jar (snd (Cookies_set P name x opts R))) name d = Inr x"
    by (simp add: encoded get_json)
  have read_removed:
    "JSCookies_get P (setCookie P (JSCookies_remove_text P name opts) (jar R)) name = None
      \<longrightarrow> Cookies_get P (jar (snd (Cookies_set P name Undefined opts R))) name d = Inr d"
    by (simp add: removal get_absent)
  from r direct [of v] removal string encoded start absent read_string read_encoded read_removed
  show ?thesis
    unfolding R_def by blast
qed

text \<open>
  The theorem at work on the page without cookies. Nobody is called. On the state it
  leaves, \<^verbatim>\<open>Cookies.set\<close> writes the codec's text with the original setter, and \<^verbatim>\<open>Cookies.get\<close>
  reads back the string \<^verbatim>\<open>hello\<close>, the boolean \<^verbatim>\<open>true\<close>, and the default after a removal
  and under a name never written.
\<close>

theorem interception_unavailable_degrades_witness:
  "subscribes_unavailable (Subscribe disabled ''a'' 1 :: (unit, bool) action)
   \<and> subscribes_unavailable (Set ''a'' (Str ''v'') () :: (unit, bool) action)
   \<and> subscribes_unavailable (Assign ''a=2'' :: (unit, bool) action)
   \<and> interception_unavailable disabled
   \<and> startIntercepting disabled (init [] :: (demo_jar, bool) broker) = init []
   \<and> \<not> isIntercepting (run demo (init []) unwatched_page)
   \<and> installs (run demo (init []) unwatched_page) = 0
   \<and> calls (run demo (init []) unwatched_page) = []
   \<and> jar (run demo (init []) unwatched_page) = [(''a'', ''2'')]
   \<and> Cookies_set demo ''a'' (Str ''hello'') () (run demo (init []) unwatched_page)
       = (None, (run demo (init []) unwatched_page)
            \<lparr>jar := setCookie demo (JSCookies_set_text demo ''a'' ''hello'' ())
               (jar (run demo (init []) unwatched_page))\<rparr>)
   \<and> \<not> startsWith ''hello'' ''json:''
   \<and> JSCookies_get demo
        (setCookie demo (JSCookies_set_text demo ''a'' ''hello'' ())
           (jar (run demo (init []) unwatched_page))) ''a''
       = Some ''hello''
   \<and> Cookies_get demo
        (jar (snd (Cookies_set demo ''a'' (Str ''hello'') () (run demo (init []) unwatched_page))))
        ''a'' (Str ''d'')
       = Inr (Str ''hello'')
   \<and> Structured True \<noteq> (Undefined :: bool jsvalue)
   \<and> \<not> is_string (Structured True)
   \<and> JSON_parse demo (JSON_stringify demo (Structured True)) = Some (Structured True)
   \<and> JSCookies_get demo
        (setCookie demo
           (JSCookies_set_text demo ''a'' (''json:'' @ JSON_stringify demo (Structured True)) ())
           (jar (run demo (init []) unwatched_page))) ''a''
       = Some (''json:'' @ JSON_stringify demo (Structured True))
   \<and> Cookies_get demo
        (jar (snd (Cookies_set demo ''a'' (Structured True) () (run demo (init []) unwatched_page))))
        ''a'' (Str ''d'')
       = Inr (Structured True)
   \<and> JSCookies_get demo
        (setCookie demo (JSCookies_remove_text demo ''a'' ())
           (jar (run demo (init []) unwatched_page))) ''a''
       = None
   \<and> Cookies_get demo
        (jar (snd (Cookies_set demo ''a'' Undefined () (run demo (init []) unwatched_page))))
        ''a'' (Str ''d'')
       = Inr (Str ''d'')
   \<and> JSCookies_get demo (jar (run demo (init []) unwatched_page)) ''b'' = None
   \<and> Cookies_get demo (jar (run demo (init []) unwatched_page)) ''b'' (Str ''d'') = Inr (Str ''d'')"
proof -
  have a1: "subscribes_unavailable (Subscribe disabled ''a'' 1 :: (unit, bool) action)"
    by (simp add: subscribes_unavailable_def interception_unavailable_def disabled_def)
  have a2: "subscribes_unavailable (Set ''a'' (Str ''v'') () :: (unit, bool) action)"
    by (simp add: subscribes_unavailable_def)
  have a3: "subscribes_unavailable (Assign ''a=2'' :: (unit, bool) action)"
    by (simp add: subscribes_unavailable_def)
  have unavailable: "interception_unavailable disabled"
    by (simp add: interception_unavailable_def disabled_def)
  have every: "\<forall>a \<in> set unwatched_page. subscribes_unavailable a"
    using a1 a2 a3 by (simp add: unwatched_page_def)
  have store: "jar (run demo (init []) unwatched_page) = [(''a'', ''2'')]"
    by code_simp
  have plain: "\<not> startsWith ''hello'' ''json:''" by code_simp
  have codec_string: "JSCookies_get demo
        (setCookie demo (JSCookies_set_text demo ''a'' ''hello'' ())
           (jar (run demo (init []) unwatched_page))) ''a'' = Some ''hello''"
    by code_simp
  have defined: "Structured True \<noteq> (Undefined :: bool jsvalue)" by simp
  have nonstring: "\<not> is_string (Structured True)" by (simp add: is_string_def)
  have serializable:
    "JSON_parse demo (JSON_stringify demo (Structured True)) = Some (Structured True)"
    by code_simp
  have codec_encoded: "JSCookies_get demo
        (setCookie demo
           (JSCookies_set_text demo ''a'' (''json:'' @ JSON_stringify demo (Structured True)) ())
           (jar (run demo (init []) unwatched_page))) ''a''
       = Some (''json:'' @ JSON_stringify demo (Structured True))"
    by code_simp
  have codec_removed: "JSCookies_get demo
        (setCookie demo (JSCookies_remove_text demo ''a'' ())
           (jar (run demo (init []) unwatched_page))) ''a'' = None"
    by code_simp
  have never: "JSCookies_get demo (jar (run demo (init []) unwatched_page)) ''b'' = None"
    by code_simp
  note written = interception_unavailable_degrades
    [OF every, where P = demo and j = "[]" and e = disabled
       and s = "init [] :: (demo_jar, bool) broker" and name = "''a''" and opts = "()"
       and str = "''hello''" and x = "Structured True" and d = "Str ''d''"]
  note unwritten = interception_unavailable_degrades
    [OF every, where P = demo and j = "[]" and name = "''b''" and d = "Str ''d''"]
  show ?thesis
    using a1 a2 a3 unavailable store plain codec_string defined nonstring serializable
      codec_encoded codec_removed never written unwritten
    by blast
qed

section \<open>Unsubscribing\<close>

text \<open>
  What the closure does to a registered name: it keeps the subscribers before the first
  occurrence of \<open>f\<close> and drops \<open>f\<close> with every subscriber after it; when \<open>f\<close> is not in
  the array, it drops the last subscriber.
\<close>

lemma unsubscribe_result:
  assumes "subscribers s name = Some fs"
  shows "unsubscribe name f s =
           (None, s\<lparr>subscribers := (subscribers s)
              (name \<mapsto> (if f \<in> set fs then takeWhile (\<lambda>g. g \<noteq> f) fs else butlast fs))\<rparr>)"
  using assms by (simp add: unsubscribe_def splice_indexOf)

text \<open>
  C1 does not hold of the code. Callbacks 1, 2 and 3 subscribe to \<^verbatim>\<open>a\<close>, in that order.
  The closure of callback 2 leaves only callback 1: callback 3 is removed with it. Calling
  the same closure again removes callback 1, though callback 2 is no longer registered.
  C1 asks for 1 and 3 to remain after the first call, and for no change at the second.
\<close>

theorem unsubscribe_removes_other_subscribers:
  "registered (run demo (init [])
      [Subscribe enabled ''a'' 1, Subscribe enabled ''a'' 2, Subscribe enabled ''a'' 3]) ''a''
     = [1, 2, 3]
   \<and> registered (run demo (init [])
      [Subscribe enabled ''a'' 1, Subscribe enabled ''a'' 2, Subscribe enabled ''a'' 3,
       Unsubscribe ''a'' 2]) ''a''
     = [1]
   \<and> registered (run demo (init [])
      [Subscribe enabled ''a'' 1, Subscribe enabled ''a'' 2, Subscribe enabled ''a'' 3,
       Unsubscribe ''a'' 2, Unsubscribe ''a'' 2]) ''a''
     = []"
  by code_simp

end
